theory Spec2Isabelle
  imports Main
begin

section \<open>The remote control-plane client\<close>

text \<open>
  Modelled from the spec: the client library's error type and its \<open>IsNotFound\<close> test are
  not part of the sources. The spec gives a remote error a classification
  (NotFound, Transient, Fatal) and a distinguishable NotFound condition. An error
  built by \<open>fmt.Errorf\<close> is \<open>Errorf\<close>; one that wraps another with \<open>%w\<close> is
  \<open>Wrapped\<close>. A nil error is \<open>None\<close>.
\<close>

datatype classification = NotFound | Transient | Fatal

datatype err =
    RemoteError classification string
  | Errorf string
  | Wrapped string err

fun IsNotFound :: "err option \<Rightarrow> bool" where
  "IsNotFound (Some (RemoteError NotFound m)) = True"
| "IsNotFound e = False"

text \<open>
  The remote service as the client returns it: the fields the controllers read.
  A missing key of \<open>URIParams\<close> reads as the empty string, as indexing a Go map does.
\<close>

record maintenance_window =
  DayOfWeek :: string
  TimeOfDay :: string

record service_user =
  Username :: string
  Password :: string

record connection_info =
  KafkaAccessCert :: string
  KafkaAccessKey :: string

record service =
  svc_State :: string
  svc_ProjectVPCID :: "string option"
  svc_Plan :: string
  svc_MaintenanceWindow :: maintenance_window
  svc_CloudName :: string
  svc_URI :: string
  svc_URIParams :: "(string \<times> string) list"
  svc_Users :: "service_user list"
  svc_ConnectionInfo :: connection_info

definition index_map :: "(string \<times> string) list \<Rightarrow> string \<Rightarrow> string" where
  "index_map m k = (case map_of m k of None \<Rightarrow> [] | Some v \<Rightarrow> v)"

datatype api_value = APIMap "(string \<times> string) list" | APIOther

record create_request =
  cr_Cloud :: string
  cr_MaintenanceWindow :: "maintenance_window option"
  cr_Plan :: string
  cr_ProjectVPCID :: "string option"
  cr_ServiceName :: string
  cr_ServiceType :: string
  cr_UserConfig :: "(string \<times> string) list"
  cr_ServiceIntegrations :: "string list"

record update_request =
  ur_Cloud :: string
  ur_MaintenanceWindow :: "maintenance_window option"
  ur_Plan :: string
  ur_ProjectVPCID :: "string option"
  ur_UserConfig :: "(string \<times> string) list"
  ur_Powered :: bool

text \<open>
  The client answers each call with a Go pair (pointer, error). Every capability
  issues at most one call, so the client is the table of its answers.
\<close>

record client =
  Services_Get :: "string \<Rightarrow> string \<Rightarrow> service option \<times> err option"
  Services_Create :: "string \<Rightarrow> create_request \<Rightarrow> service option \<times> err option"
  Services_Update :: "string \<Rightarrow> string \<Rightarrow> update_request \<Rightarrow> service option \<times> err option"
  Services_Delete :: "string \<Rightarrow> string \<Rightarrow> err option"
  CA_Get :: "string \<Rightarrow> string \<times> err option"

datatype remote_call =
    CallGet string string
  | CallCreate string create_request
  | CallUpdate string string update_request
  | CallDelete string string
  | CallCA string

text \<open>What a capability does besides returning: log lines and remote calls, in order.\<close>

datatype event = LogInfo string | LogError string | Remote remote_call

fun is_remote :: "event \<Rightarrow> bool" where
  "is_remote (Remote c) = True"
| "is_remote e = False"

definition remote_calls :: "event list \<Rightarrow> event list" where
  "remote_calls evs = filter is_remote evs"

text \<open>A nil dereference or a failed type assertion panics.\<close>

datatype 'a outcome = Returns 'a | Panics

record logger =
  log_values :: "(string \<times> string) list"

section \<open>Descriptors\<close>

record pg_spec =
  pg_Project :: string
  pg_CloudName :: string
  pg_MaintenanceWindowDow :: string
  pg_MaintenanceWindowTime :: string
  pg_Plan :: string
  pg_ProjectVPCID :: string
  pg_PGUserConfig :: "(string \<times> string) list"
  pg_ConnInfoSecretTarget_Name :: string
  pg_AuthSecretRef :: "string \<times> string"

record service_status =
  st_State :: string
  st_ProjectVPCID :: string
  st_Plan :: string
  st_MaintenanceWindowTime :: string
  st_MaintenanceWindowDow :: string
  st_CloudName :: string

record pg =
  pg_Name :: string
  pg_Namespace :: string
  pg_Spec :: pg_spec
  pg_Status :: service_status

record kafka_spec =
  k_Project :: string
  k_ConnInfoSecretTarget_Name :: string
  k_DiskSpace :: string
  k_UserConfig :: "(string \<times> string) list"

record kafka =
  k_Name :: string
  k_Namespace :: string
  k_Spec :: kafka_spec
  k_Status :: service_status

text \<open>
  A \<open>client.Object\<close> is a non-nil pointer to a descriptor of some kind; the kinds
  other than PG and Kafka are told apart by their name only.
\<close>

datatype object = PGObj pg | KafkaObj kafka | OtherObj string

record secret =
  sec_Name :: string
  sec_Namespace :: string
  sec_Labels :: "(string \<times> string) list"
  sec_StringData :: "string \<rightharpoonup> string"

text \<open>
  Helpers of the package that the handlers call and whose bodies are not part of the
  sources; they are parameters of the model.
\<close>

record helpers =
  getMaintenanceWindow :: "string \<Rightarrow> string \<Rightarrow> maintenance_window option"
  UserConfigurationToAPI :: "(string \<times> string) list \<Rightarrow> api_value"
  checkServiceIsRunning :: "client \<Rightarrow> string \<Rightarrow> string \<Rightarrow> bool \<times> event list"

section \<open>The PG handler\<close>

definition convert :: "object \<Rightarrow> err + pg" where
  "convert i = (case i of PGObj p \<Rightarrow> Inr p
                | _ \<Rightarrow> Inl (Errorf ''cannot convert object to PG''))"

definition PGHandler_exists :: "client \<Rightarrow> logger \<Rightarrow> object \<Rightarrow> (bool \<times> err option) \<times> event list" where
  "PGHandler_exists c log i =
     (case convert i of
        Inl e \<Rightarrow> ((False, Some e), [])
      | Inr p \<Rightarrow>
          (let evs = [LogInfo ''checking if pg service already exists'',
                      Remote (CallGet (pg_Project (pg_Spec p)) (pg_Name p))];
               (s, e) = Services_Get c (pg_Project (pg_Spec p)) (pg_Name p)
           in if IsNotFound e then ((False, None), evs)
              else ((s \<noteq> None, None), evs)))"

definition setStatus :: "pg \<Rightarrow> service \<Rightarrow> pg" where
  "setStatus p s =
     (let prVPCID = (case svc_ProjectVPCID s of None \<Rightarrow> [] | Some v \<Rightarrow> v)
      in p\<lparr>pg_Status :=
             (pg_Status p)\<lparr>st_State := svc_State s,
                            st_ProjectVPCID := prVPCID,
                            st_Plan := svc_Plan s,
                            st_MaintenanceWindowTime := TimeOfDay (svc_MaintenanceWindow s),
                            st_MaintenanceWindowDow := DayOfWeek (svc_MaintenanceWindow s),
                            st_CloudName := svc_CloudName s\<rparr>\<rparr>)"

definition PGHandler_create ::
  "helpers \<Rightarrow> client \<Rightarrow> logger \<Rightarrow> object \<Rightarrow> (object option \<times> err option) outcome \<times> event list" where
  "PGHandler_create h c log i =
     (case convert i of
        Inl e \<Rightarrow> (Returns (None, Some e), [])
      | Inr p \<Rightarrow>
          (let prVPCID = (if pg_ProjectVPCID (pg_Spec p) \<noteq> [] then Some (pg_ProjectVPCID (pg_Spec p))
                          else None)
           in case UserConfigurationToAPI h (pg_PGUserConfig (pg_Spec p)) of
                APIOther \<Rightarrow> (Panics, [LogInfo ''creating a new pg service''])
              | APIMap uc \<Rightarrow>
                  (let req = \<lparr>cr_Cloud = pg_CloudName (pg_Spec p),
                              cr_MaintenanceWindow =
                                getMaintenanceWindow h (pg_MaintenanceWindowDow (pg_Spec p))
                                  (pg_MaintenanceWindowTime (pg_Spec p)),
                              cr_Plan = pg_Plan (pg_Spec p),
                              cr_ProjectVPCID = prVPCID,
                              cr_ServiceName = pg_Name p,
                              cr_ServiceType = ''pg'',
                              cr_UserConfig = uc,
                              cr_ServiceIntegrations = []\<rparr>;
                       evs = [LogInfo ''creating a new pg service'',
                              Remote (CallCreate (pg_Project (pg_Spec p)) req)]
                   in case Services_Create c (pg_Project (pg_Spec p)) req of
                        (s, Some e) \<Rightarrow> (Returns (None, Some e), evs)
                      | (None, None) \<Rightarrow> (Panics, evs)
                      | (Some s, None) \<Rightarrow> (Returns (Some (PGObj (setStatus p s)), None), evs))))"

definition PGHandler_update ::
  "helpers \<Rightarrow> client \<Rightarrow> logger \<Rightarrow> object \<Rightarrow> (object option \<times> err option) outcome \<times> event list" where
  "PGHandler_update h c log i =
     (case convert i of
        Inl e \<Rightarrow> (Returns (None, Some e), [])
      | Inr p \<Rightarrow>
          (let prVPCID = (if pg_ProjectVPCID (pg_Spec p) \<noteq> [] then Some (pg_ProjectVPCID (pg_Spec p))
                          else None)
           in case UserConfigurationToAPI h (pg_PGUserConfig (pg_Spec p)) of
                APIOther \<Rightarrow> (Panics, [LogInfo ''updating pg service''])
              | APIMap uc \<Rightarrow>
                  (let req = \<lparr>ur_Cloud = pg_CloudName (pg_Spec p),
                              ur_MaintenanceWindow =
                                getMaintenanceWindow h (pg_MaintenanceWindowDow (pg_Spec p))
                                  (pg_MaintenanceWindowTime (pg_Spec p)),
                              ur_Plan = pg_Plan (pg_Spec p),
                              ur_ProjectVPCID = prVPCID,
                              ur_UserConfig = uc,
                              ur_Powered = True\<rparr>;
                       evs = [LogInfo ''updating pg service'',
                              Remote (CallUpdate (pg_Project (pg_Spec p)) (pg_Name p) req)]
                   in case Services_Update c (pg_Project (pg_Spec p)) (pg_Name p) req of
                        (s, Some e) \<Rightarrow> (Returns (None, Some e), evs)
                      | (None, None) \<Rightarrow> (Panics, evs)
                      | (Some s, None) \<Rightarrow> (Returns (Some (PGObj (setStatus p s)), None), evs))))"

definition PGHandler_delete :: "client \<Rightarrow> logger \<Rightarrow> object \<Rightarrow> (bool \<times> err option) \<times> event list" where
  "PGHandler_delete c log i =
     (case convert i of
        Inl e \<Rightarrow> ((False, Some e), [])
      | Inr p \<Rightarrow>
          (let call = Remote (CallDelete (pg_Project (pg_Spec p)) (pg_Name p))
           in case Services_Delete c (pg_Project (pg_Spec p)) (pg_Name p) of
                None \<Rightarrow> ((True, None), [call, LogInfo ''successfully finalized pg service on Aiven side''])
              | Some e \<Rightarrow>
                  if \<not> IsNotFound (Some e)
                  then ((False, Some (Wrapped ''aiven client delete pg error: '' e)),
                        [call, LogError ''cannot delete aiven pg service''])
                  else ((True, None),
                        [call, LogInfo ''successfully finalized pg service on Aiven side''])))"

definition getSecretName :: "pg \<Rightarrow> string" where
  "getSecretName p =
     (if pg_ConnInfoSecretTarget_Name (pg_Spec p) \<noteq> [] then pg_ConnInfoSecretTarget_Name (pg_Spec p)
      else pg_Name p)"

definition PGHandler_getSecret ::
  "client \<Rightarrow> logger \<Rightarrow> object \<Rightarrow> (secret option \<times> err option) outcome \<times> event list" where
  "PGHandler_getSecret c log i =
     (case convert i of
        Inl e \<Rightarrow> (Returns (None, Some e), [])
      | Inr p \<Rightarrow>
          (let evs = [LogInfo ''getting pg secret'',
                      Remote (CallGet (pg_Project (pg_Spec p)) (pg_Name p))]
           in case Services_Get c (pg_Project (pg_Spec p)) (pg_Name p) of
                (s, Some e) \<Rightarrow> (Returns (None, Some (Wrapped ''cannot get pg: '' e)), evs)
              | (None, None) \<Rightarrow> (Panics, evs)
              | (Some s, None) \<Rightarrow>
                  (let params = svc_URIParams s
                   in (Returns
                         (Some \<lparr>sec_Name = getSecretName p,
                                sec_Namespace = pg_Namespace p,
                                sec_Labels = [(''app'', pg_Name p)],
                                sec_StringData =
                                  [''PGHOST'' \<mapsto> index_map params ''host'',
                                   ''PGPORT'' \<mapsto> index_map params ''port'',
                                   ''PGDATABASE'' \<mapsto> index_map params ''dbname'',
                                   ''PGUSER'' \<mapsto> index_map params ''user'',
                                   ''PGPASSWORD'' \<mapsto> index_map params ''password'',
                                   ''PGSSLMODE'' \<mapsto> index_map params ''sslmode'',
                                   ''DATABASE_URI'' \<mapsto> svc_URI s]\<rparr>,
                          None), evs))))"

definition PGHandler_isActive ::
  "helpers \<Rightarrow> client \<Rightarrow> logger \<Rightarrow> object \<Rightarrow> (bool \<times> err option) \<times> event list" where
  "PGHandler_isActive h c log i =
     (case convert i of
        Inl e \<Rightarrow> ((False, Some e), [])
      | Inr p \<Rightarrow>
          (let (b, evs) = checkServiceIsRunning h c (pg_Project (pg_Spec p)) (pg_Name p)
           in ((b, None), LogInfo ''checking if pg service is active'' # evs)))"

definition PGHandler_checkPreconditions :: "client \<Rightarrow> logger \<Rightarrow> object \<Rightarrow> bool" where
  "PGHandler_checkPreconditions c log i = True"

definition PGHandler_getSecretReference :: "object \<Rightarrow> (string \<times> string) option" where
  "PGHandler_getSecretReference i =
     (case convert i of Inl e \<Rightarrow> None | Inr p \<Rightarrow> Some (pg_AuthSecretRef (pg_Spec p)))"

section \<open>The Kafka adapter\<close>

record kafkaAdapter =
  avn :: client
  Kafka :: kafka

definition newKafkaAdapter :: "client \<Rightarrow> object \<Rightarrow> (kafkaAdapter option \<times> err option) \<times> event list" where
  "newKafkaAdapter a object =
     (case object of
        KafkaObj k \<Rightarrow> ((Some \<lparr>avn = a, Kafka = k\<rparr>, None), [])
      | _ \<Rightarrow> ((None, Some (Errorf ''object is not of type v1alpha1.Kafka'')), []))"

definition getServiceCommonSpec :: "kafkaAdapter \<Rightarrow> kafka_spec" where
  "getServiceCommonSpec a = k_Spec (Kafka a)"

text \<open>Indexing a slice out of range panics.\<close>

definition index_users :: "service_user list \<Rightarrow> nat \<Rightarrow> service_user outcome" where
  "index_users us n = (if n < length us then Returns (us ! n) else Panics)"

text \<open>
  The loop that removes the empties visits the keys of the map; \<open>ks\<close> is the order of
  the visit, which Go leaves open. The service snapshot passed to \<open>newSecret\<close> is a
  non-nil pointer.
\<close>

fun remove_empties :: "string list \<Rightarrow> (string \<rightharpoonup> string) \<Rightarrow> (string \<rightharpoonup> string)" where
  "remove_empties [] m = m"
| "remove_empties (k # ks) m =
     remove_empties ks (if m k = Some [] then m(k := None) else m)"

definition kafka_keys :: "string list" where
  "kafka_keys = [''HOST'', ''PORT'', ''PASSWORD'', ''USERNAME'', ''ACCESS_CERT'', ''ACCESS_KEY'', ''CA_CERT'']"

definition kafkaAdapter_newSecret ::
  "kafkaAdapter \<Rightarrow> service \<Rightarrow> (secret option \<times> err option) outcome \<times> event list" where
  "kafkaAdapter_newSecret a s =
     (let name = (if k_ConnInfoSecretTarget_Name (k_Spec (Kafka a)) = [] then k_Name (Kafka a)
                  else k_ConnInfoSecretTarget_Name (k_Spec (Kafka a)));
          creds = (if length (svc_Users s) > 0
                   then (case index_users (svc_Users s) 0 of
                           Panics \<Rightarrow> Panics
                         | Returns u \<Rightarrow> Returns (Username u, Password u))
                   else Returns ([], []))
      in case creds of
           Panics \<Rightarrow> (Panics, [])
         | Returns (userName, password) \<Rightarrow>
             (let evs = [Remote (CallCA (k_Project (getServiceCommonSpec a)))]
              in case CA_Get (avn a) (k_Project (getServiceCommonSpec a)) of
                   (caCert, Some e) \<Rightarrow>
                     (Returns (None, Some (Wrapped ''aiven client error '' e)), evs)
                 | (caCert, None) \<Rightarrow>
                     (let stringData =
                            [''HOST'' \<mapsto> index_map (svc_URIParams s) ''host'',
                             ''PORT'' \<mapsto> index_map (svc_URIParams s) ''port'',
                             ''PASSWORD'' \<mapsto> password,
                             ''USERNAME'' \<mapsto> userName,
                             ''ACCESS_CERT'' \<mapsto> KafkaAccessCert (svc_ConnectionInfo s),
                             ''ACCESS_KEY'' \<mapsto> KafkaAccessKey (svc_ConnectionInfo s),
                             ''CA_CERT'' \<mapsto> caCert]
                      in (Returns
                            (Some \<lparr>sec_Name = name,
                                   sec_Namespace = k_Namespace (Kafka a),
                                   sec_Labels = [],
                                   sec_StringData = remove_empties kafka_keys stringData\<rparr>,
                             None), evs))))"

definition getServiceType :: "kafkaAdapter \<Rightarrow> string" where
  "getServiceType a = ''kafka''"

definition getDiskSpace :: "kafkaAdapter \<Rightarrow> string" where
  "getDiskSpace a = k_DiskSpace (k_Spec (Kafka a))"

section \<open>The engine's precondition gate\<close>

text \<open>
  Modelled from the spec: the reconciliation engine (\<open>reconcileInstance\<close>) is not part
  of the sources. Its step 4 invokes the adapter's \<open>checkPreconditions\<close>; if false it
  records a waiting status, returns a retry-after and makes no remote call, otherwise
  the step goes on to the existence check.
\<close>

datatype gate = RecordWaitingAndRetryAfter | GoOnToExists

definition precondition_gate ::
  "(client \<Rightarrow> logger \<Rightarrow> object \<Rightarrow> bool) \<Rightarrow> client \<Rightarrow> logger \<Rightarrow> object \<Rightarrow> gate" where
  "precondition_gate checkPreconditions c log i =
     (if checkPreconditions c log i then GoOnToExists else RecordWaitingAndRetryAfter)"

section \<open>Kinds of objects\<close>

fun is_PG :: "object \<Rightarrow> bool" where
  "is_PG (PGObj p) = True"
| "is_PG i = False"

fun is_Kafka :: "object \<Rightarrow> bool" where
  "is_Kafka (KafkaObj k) = True"
| "is_Kafka i = False"

section \<open>Status and service\<close>

text \<open>The status of a descriptor carries the fields of a remote service.\<close>

definition status_matches :: "service_status \<Rightarrow> service \<Rightarrow> bool" where
  "status_matches st s \<longleftrightarrow>
     st_State st = svc_State s
     \<and> st_CloudName st = svc_CloudName s
     \<and> st_Plan st = svc_Plan s
     \<and> st_MaintenanceWindowDow st = DayOfWeek (svc_MaintenanceWindow s)
     \<and> st_MaintenanceWindowTime st = TimeOfDay (svc_MaintenanceWindow s)
     \<and> st_ProjectVPCID st = (case svc_ProjectVPCID s of None \<Rightarrow> [] | Some v \<Rightarrow> v)"

section \<open>Concrete descriptors, services and clients\<close>

definition example_status :: service_status where
  "example_status =
     \<lparr>st_State = [], st_ProjectVPCID = [], st_Plan = [], st_MaintenanceWindowTime = [],
      st_MaintenanceWindowDow = [], st_CloudName = []\<rparr>"

definition example_pg :: pg where
  "example_pg =
     \<lparr>pg_Name = ''p1-db'', pg_Namespace = ''default'',
      pg_Spec = \<lparr>pg_Project = ''p1'', pg_CloudName = ''google-europe-west1'',
                 pg_MaintenanceWindowDow = ''monday'', pg_MaintenanceWindowTime = ''10:00:00'',
                 pg_Plan = ''startup-4'', pg_ProjectVPCID = [], pg_PGUserConfig = [],
                 pg_ConnInfoSecretTarget_Name = [], pg_AuthSecretRef = (''aiven-token'', ''token'')\<rparr>,
      pg_Status = example_status\<rparr>"

definition example_kafka :: kafka where
  "example_kafka =
     \<lparr>k_Name = ''k1'', k_Namespace = ''default'',
      k_Spec = \<lparr>k_Project = ''p1'', k_ConnInfoSecretTarget_Name = ''k1-conn'',
                k_DiskSpace = [], k_UserConfig = []\<rparr>,
      k_Status = example_status\<rparr>"

definition example_service :: service where
  "example_service =
     \<lparr>svc_State = ''RUNNING'', svc_ProjectVPCID = None, svc_Plan = ''startup-4'',
      svc_MaintenanceWindow = \<lparr>DayOfWeek = ''monday'', TimeOfDay = ''10:00:00''\<rparr>,
      svc_CloudName = ''google-europe-west1'', svc_URI = ''postgres://h:1/db'',
      svc_URIParams = [(''host'', ''h''), (''port'', ''1'')],
      svc_Users = [],
      svc_ConnectionInfo = \<lparr>KafkaAccessCert = ''cert'', KafkaAccessKey = ''key''\<rparr>\<rparr>"

text \<open>A service whose parsed URI parameters are empty.\<close>

definition bare_service :: service where
  "bare_service = example_service\<lparr>svc_URIParams := []\<rparr>"

text \<open>The client that gives every call the same answer.\<close>

definition answering ::
  "service option \<times> err option \<Rightarrow> err option \<Rightarrow> string \<times> err option \<Rightarrow> client" where
  "answering r d ca =
     \<lparr>Services_Get = (\<lambda>project name. r),
      Services_Create = (\<lambda>project req. r),
      Services_Update = (\<lambda>project name req. r),
      Services_Delete = (\<lambda>project name. d),
      CA_Get = (\<lambda>project. ca)\<rparr>"

definition example_helpers :: helpers where
  "example_helpers =
     \<lparr>getMaintenanceWindow = (\<lambda>dow time. Some \<lparr>DayOfWeek = dow, TimeOfDay = time\<rparr>),
      UserConfigurationToAPI = (\<lambda>cfg. APIMap cfg),
      checkServiceIsRunning = (\<lambda>c project name. (False, [Remote (CallGet project name)]))\<rparr>"

definition example_logger :: logger where
  "example_logger = \<lparr>log_values = [(''pg'', ''default/p1-db'')]\<rparr>"

section \<open>The existence check\<close>

lemma exists_never_errs: "snd (fst (PGHandler_exists c log (PGObj p))) = None"
  by (simp add: PGHandler_exists_def convert_def Let_def split: prod.splits)

text \<open>
  C1. The claim: when the remote get of the existence check fails with an error that is
  not NotFound, \<open>exists\<close> returns that error. The code drops it: with a transient
  error and no service returned, \<open>exists\<close> answers false with a nil error, the answer
  after which the engine creates.
\<close>

theorem exists_swallows_transient_error:
  "PGHandler_exists (answering (None, Some (RemoteError Transient ''503'')) None ([], None))
       example_logger (PGObj example_pg)
   = ((False, None),
      [LogInfo ''checking if pg service already exists'', Remote (CallGet ''p1'' ''p1-db'')])"
  by (simp add: PGHandler_exists_def convert_def answering_def example_pg_def)

text \<open>
  C4. When the remote get of the existence check reports NotFound, \<open>exists\<close> returns false
  with a nil error, and logs nothing but its one information line.
\<close>

theorem exists_notfound_is_false:
  "IsNotFound (snd (Services_Get c (pg_Project (pg_Spec p)) (pg_Name p))) \<Longrightarrow>
   PGHandler_exists c log (PGObj p)
   = ((False, None),
      [LogInfo ''checking if pg service already exists'',
       Remote (CallGet (pg_Project (pg_Spec p)) (pg_Name p))])"
  by (cases "Services_Get c (pg_Project (pg_Spec p)) (pg_Name p)")
     (simp add: PGHandler_exists_def convert_def Let_def)

theorem exists_notfound_is_false_witness:
  "IsNotFound (snd (Services_Get (answering (None, Some (RemoteError NotFound ''404'')) None ([], None))
                      (pg_Project (pg_Spec example_pg)) (pg_Name example_pg)))
   \<and> PGHandler_exists (answering (None, Some (RemoteError NotFound ''404'')) None ([], None))
        example_logger (PGObj example_pg)
     = ((False, None),
        [LogInfo ''checking if pg service already exists'', Remote (CallGet ''p1'' ''p1-db'')])"
proof -
  have h: "IsNotFound (snd (Services_Get (answering (None, Some (RemoteError NotFound ''404'')) None ([], None))
                      (pg_Project (pg_Spec example_pg)) (pg_Name example_pg)))"
    by (simp add: answering_def)
  show ?thesis
    using h exists_notfound_is_false [OF h, of example_logger]
    by (simp add: example_pg_def)
qed

section \<open>Deletion\<close>

text \<open>
  C2, as stated: \<open>delete\<close> returns true if and only if the remote delete observed
  NotFound. It fails where the remote delete succeeds: \<open>delete\<close> returns true there too.
\<close>

theorem delete_after_ok_counterexample:
  "\<not> (fst (fst (PGHandler_delete (answering (None, None) None ([], None)) example_logger (PGObj example_pg)))
       \<longleftrightarrow> IsNotFound (Services_Delete (answering (None, None) None ([], None)) ''p1'' ''p1-db''))"
  by (simp add: PGHandler_delete_def convert_def answering_def example_pg_def)

text \<open>
  C2, amended: for a PG descriptor, \<open>delete\<close> returns true if and only if the remote delete
  returned no error or observed NotFound; on any other error it returns false together
  with that error, wrapped.
\<close>

theorem delete_true_iff_gone:
  "(fst (fst (PGHandler_delete c log (PGObj p)))
      \<longleftrightarrow> Services_Delete c (pg_Project (pg_Spec p)) (pg_Name p) = None
          \<or> IsNotFound (Services_Delete c (pg_Project (pg_Spec p)) (pg_Name p)))
   \<and> (Services_Delete c (pg_Project (pg_Spec p)) (pg_Name p) = Some e \<and> \<not> IsNotFound (Some e)
        \<longrightarrow> fst (PGHandler_delete c log (PGObj p))
            = (False, Some (Wrapped ''aiven client delete pg error: '' e)))"
  by (simp add: PGHandler_delete_def convert_def Let_def split: option.splits)

theorem delete_true_iff_gone_witness:
  "Services_Delete (answering (None, None) (Some (RemoteError Transient ''draining'')) ([], None))
      (pg_Project (pg_Spec example_pg)) (pg_Name example_pg) = Some (RemoteError Transient ''draining'')
   \<and> \<not> IsNotFound (Some (RemoteError Transient ''draining''))
   \<and> fst (PGHandler_delete (answering (None, None) (Some (RemoteError Transient ''draining'')) ([], None))
            example_logger (PGObj example_pg))
     = (False, Some (Wrapped ''aiven client delete pg error: '' (RemoteError Transient ''draining'')))"
  using delete_true_iff_gone [of "answering (None, None) (Some (RemoteError Transient ''draining'')) ([], None)"
          example_logger example_pg "RemoteError Transient ''draining''"]
  by (simp add: answering_def)

section \<open>Preconditions\<close>

text \<open>
  C10. For every client, logger and object the PG handler's \<open>checkPreconditions\<close> returns
  true, so the engine's precondition gate never records a waiting status for a PG
  descriptor and always goes on to the existence check.
\<close>

theorem pg_checkPreconditions_always_true:
  "PGHandler_checkPreconditions c log i = True
   \<and> precondition_gate PGHandler_checkPreconditions c log i = GoOnToExists"
  by (simp add: PGHandler_checkPreconditions_def precondition_gate_def)

section \<open>Status after create and update\<close>

lemma setStatus_fields:
  "st_State (pg_Status (setStatus p s)) = svc_State s
   \<and> st_CloudName (pg_Status (setStatus p s)) = svc_CloudName s
   \<and> st_Plan (pg_Status (setStatus p s)) = svc_Plan s
   \<and> st_MaintenanceWindowDow (pg_Status (setStatus p s)) = DayOfWeek (svc_MaintenanceWindow s)
   \<and> st_MaintenanceWindowTime (pg_Status (setStatus p s)) = TimeOfDay (svc_MaintenanceWindow s)
   \<and> st_ProjectVPCID (pg_Status (setStatus p s))
       = (case svc_ProjectVPCID s of None \<Rightarrow> [] | Some v \<Rightarrow> v)
   \<and> pg_Name (setStatus p s) = pg_Name p
   \<and> pg_Namespace (setStatus p s) = pg_Namespace p
   \<and> pg_Spec (setStatus p s) = pg_Spec p"
  by (simp add: setStatus_def)

lemma create_success:
  assumes "fst (PGHandler_create h c log (PGObj p)) = Returns (Some obj, None)"
  shows "\<exists>s req. snd (PGHandler_create h c log (PGObj p))
                   = [LogInfo ''creating a new pg service'',
                      Remote (CallCreate (pg_Project (pg_Spec p)) req)]
          \<and> Services_Create c (pg_Project (pg_Spec p)) req = (Some s, None)
          \<and> obj = PGObj (setStatus p s)"
proof (cases "UserConfigurationToAPI h (pg_PGUserConfig (pg_Spec p))")
  case APIOther
  with assms show ?thesis by (simp add: PGHandler_create_def convert_def)
next
  case (APIMap uc)
  let ?req = "\<lparr>cr_Cloud = pg_CloudName (pg_Spec p),
               cr_MaintenanceWindow =
                 getMaintenanceWindow h (pg_MaintenanceWindowDow (pg_Spec p))
                   (pg_MaintenanceWindowTime (pg_Spec p)),
               cr_Plan = pg_Plan (pg_Spec p),
               cr_ProjectVPCID = (if pg_ProjectVPCID (pg_Spec p) \<noteq> []
                                  then Some (pg_ProjectVPCID (pg_Spec p)) else None),
               cr_ServiceName = pg_Name p,
               cr_ServiceType = ''pg'',
               cr_UserConfig = uc,
               cr_ServiceIntegrations = []\<rparr>"
  obtain s e where r: "Services_Create c (pg_Project (pg_Spec p)) ?req = (s, e)"
    by (cases "Services_Create c (pg_Project (pg_Spec p)) ?req")
  from assms APIMap r have "e = None \<and> s \<noteq> None \<and> obj = PGObj (setStatus p (the s))"
    by (cases e; cases s) (simp_all add: PGHandler_create_def convert_def Let_def)
  moreover from APIMap r
  have "snd (PGHandler_create h c log (PGObj p))
        = [LogInfo ''creating a new pg service'', Remote (CallCreate (pg_Project (pg_Spec p)) ?req)]"
    by (cases e; cases s) (simp_all add: PGHandler_create_def convert_def Let_def)
  ultimately show ?thesis using r by auto
qed

lemma update_success:
  assumes "fst (PGHandler_update h c log (PGObj p)) = Returns (Some obj, None)"
  shows "\<exists>s req. snd (PGHandler_update h c log (PGObj p))
                   = [LogInfo ''updating pg service'',
                      Remote (CallUpdate (pg_Project (pg_Spec p)) (pg_Name p) req)]
          \<and> Services_Update c (pg_Project (pg_Spec p)) (pg_Name p) req = (Some s, None)
          \<and> obj = PGObj (setStatus p s)"
proof (cases "UserConfigurationToAPI h (pg_PGUserConfig (pg_Spec p))")
  case APIOther
  with assms show ?thesis by (simp add: PGHandler_update_def convert_def)
next
  case (APIMap uc)
  let ?req = "\<lparr>ur_Cloud = pg_CloudName (pg_Spec p),
               ur_MaintenanceWindow =
                 getMaintenanceWindow h (pg_MaintenanceWindowDow (pg_Spec p))
                   (pg_MaintenanceWindowTime (pg_Spec p)),
               ur_Plan = pg_Plan (pg_Spec p),
               ur_ProjectVPCID = (if pg_ProjectVPCID (pg_Spec p) \<noteq> []
                                  then Some (pg_ProjectVPCID (pg_Spec p)) else None),
               ur_UserConfig = uc,
               ur_Powered = True\<rparr>"
  obtain s e where r: "Services_Update c (pg_Project (pg_Spec p)) (pg_Name p) ?req = (s, e)"
    by (cases "Services_Update c (pg_Project (pg_Spec p)) (pg_Name p) ?req")
  from assms APIMap r have "e = None \<and> s \<noteq> None \<and> obj = PGObj (setStatus p (the s))"
    by (cases e; cases s) (simp_all add: PGHandler_update_def convert_def Let_def)
  moreover from APIMap r
  have "snd (PGHandler_update h c log (PGObj p))
        = [LogInfo ''updating pg service'',
           Remote (CallUpdate (pg_Project (pg_Spec p)) (pg_Name p) ?req)]"
    by (cases e; cases s) (simp_all add: PGHandler_update_def convert_def Let_def)
  ultimately show ?thesis using r by auto
qed

text \<open>
  C6. After a successful \<open>create\<close> or \<open>update\<close> the returned descriptor's status fields
  (state, cloud, plan, maintenance-window day and time, VPC reference) equal those of the
  service that the remote call of that operation returned; the VPC reference is the
  empty string when the service carries none.
\<close>

theorem status_after_create_or_update:
  "(fst (PGHandler_create h c log (PGObj p)) = Returns (Some obj, None) \<longrightarrow>
      (\<exists>s req p'. Remote (CallCreate (pg_Project (pg_Spec p)) req)
                     \<in> set (snd (PGHandler_create h c log (PGObj p)))
         \<and> Services_Create c (pg_Project (pg_Spec p)) req = (Some s, None)
         \<and> obj = PGObj p' \<and> status_matches (pg_Status p') s))
   \<and> (fst (PGHandler_update h c log (PGObj p)) = Returns (Some obj', None) \<longrightarrow>
      (\<exists>s req p'. Remote (CallUpdate (pg_Project (pg_Spec p)) (pg_Name p) req)
                     \<in> set (snd (PGHandler_update h c log (PGObj p)))
         \<and> Services_Update c (pg_Project (pg_Spec p)) (pg_Name p) req = (Some s, None)
         \<and> obj' = PGObj p' \<and> status_matches (pg_Status p') s))"
proof (intro conjI impI)
  assume "fst (PGHandler_create h c log (PGObj p)) = Returns (Some obj, None)"
  from create_success [OF this] obtain s req where
    "snd (PGHandler_create h c log (PGObj p))
       = [LogInfo ''creating a new pg service'', Remote (CallCreate (pg_Project (pg_Spec p)) req)]"
    "Services_Create c (pg_Project (pg_Spec p)) req = (Some s, None)"
    "obj = PGObj (setStatus p s)"
    by blast
  moreover have "status_matches (pg_Status (setStatus p s)) s"
    by (simp add: status_matches_def setStatus_fields)
  ultimately show "\<exists>s req p'. Remote (CallCreate (pg_Project (pg_Spec p)) req)
                     \<in> set (snd (PGHandler_create h c log (PGObj p)))
         \<and> Services_Create c (pg_Project (pg_Spec p)) req = (Some s, None)
         \<and> obj = PGObj p' \<and> status_matches (pg_Status p') s"
    by (intro exI [of _ s] exI [of _ req] exI [of _ "setStatus p s"]) simp
next
  assume "fst (PGHandler_update h c log (PGObj p)) = Returns (Some obj', None)"
  from update_success [OF this] obtain s req where
    "snd (PGHandler_update h c log (PGObj p))
       = [LogInfo ''updating pg service'',
          Remote (CallUpdate (pg_Project (pg_Spec p)) (pg_Name p) req)]"
    "Services_Update c (pg_Project (pg_Spec p)) (pg_Name p) req = (Some s, None)"
    "obj' = PGObj (setStatus p s)"
    by blast
  moreover have "status_matches (pg_Status (setStatus p s)) s"
    by (simp add: status_matches_def setStatus_fields)
  ultimately show "\<exists>s req p'. Remote (CallUpdate (pg_Project (pg_Spec p)) (pg_Name p) req)
                     \<in> set (snd (PGHandler_update h c log (PGObj p)))
         \<and> Services_Update c (pg_Project (pg_Spec p)) (pg_Name p) req = (Some s, None)
         \<and> obj' = PGObj p' \<and> status_matches (pg_Status p') s"
    by (intro exI [of _ s] exI [of _ req] exI [of _ "setStatus p s"]) simp
qed

theorem status_after_create_or_update_witness:
  "fst (PGHandler_create example_helpers (answering (Some example_service, None) None ([], None))
          example_logger (PGObj example_pg))
     = Returns (Some (PGObj (setStatus example_pg example_service)), None)
   \<and> fst (PGHandler_update example_helpers (answering (Some example_service, None) None ([], None))
          example_logger (PGObj example_pg))
     = Returns (Some (PGObj (setStatus example_pg example_service)), None)
   \<and> status_matches (pg_Status (setStatus example_pg example_service)) example_service
   \<and> st_State (pg_Status (setStatus example_pg example_service)) = ''RUNNING''
   \<and> st_ProjectVPCID (pg_Status (setStatus example_pg example_service)) = []"
proof -
  let ?c = "answering (Some example_service, None) None ([], None)"
  let ?p = "setStatus example_pg example_service"
  have h1: "fst (PGHandler_create example_helpers ?c example_logger (PGObj example_pg))
            = Returns (Some (PGObj ?p), None)"
    by (simp add: PGHandler_create_def convert_def answering_def example_helpers_def Let_def)
  have h2: "fst (PGHandler_update example_helpers ?c example_logger (PGObj example_pg))
            = Returns (Some (PGObj ?p), None)"
    by (simp add: PGHandler_update_def convert_def answering_def example_helpers_def Let_def)
  from h1 status_after_create_or_update
         [of example_helpers ?c example_logger example_pg "PGObj ?p" "PGObj ?p"]
  have "\<exists>s req p'. Services_Create ?c (pg_Project (pg_Spec example_pg)) req = (Some s, None)
          \<and> PGObj ?p = PGObj p' \<and> status_matches (pg_Status p') s"
    by blast
  then have m: "status_matches (pg_Status ?p) example_service"
    by (auto simp: answering_def)
  then have "st_State (pg_Status ?p) = ''RUNNING'' \<and> st_ProjectVPCID (pg_Status ?p) = []"
    by (simp add: status_matches_def example_service_def)
  with h1 h2 m show ?thesis by simp
qed

section \<open>Secrets\<close>

lemma index_users_out_of_range: "index_users [] n = Panics"
  by (simp add: index_users_def)

text \<open>The result of the loop does not depend on the order of the visit.\<close>

lemma remove_empties_eq:
  "remove_empties ks m k = (if k \<in> set ks \<and> m k = Some [] then None else m k)"
  by (induction ks arbitrary: m) auto

lemma newSecret_CA_fails:
  "CA_Get (avn a) (k_Project (k_Spec (Kafka a))) = (ca, Some e) \<Longrightarrow>
   kafkaAdapter_newSecret a s
   = (Returns (None, Some (Wrapped ''aiven client error '' e)),
      [Remote (CallCA (k_Project (k_Spec (Kafka a))))])"
  by (cases "svc_Users s")
     (simp_all add: kafkaAdapter_newSecret_def index_users_def getServiceCommonSpec_def Let_def)

lemma newSecret_CA_ok:
  "CA_Get (avn a) (k_Project (k_Spec (Kafka a))) = (ca, None) \<Longrightarrow>
   kafkaAdapter_newSecret a s
   = (Returns
        (Some \<lparr>sec_Name = (if k_ConnInfoSecretTarget_Name (k_Spec (Kafka a)) = [] then k_Name (Kafka a)
                            else k_ConnInfoSecretTarget_Name (k_Spec (Kafka a))),
               sec_Namespace = k_Namespace (Kafka a),
               sec_Labels = [],
               sec_StringData =
                 remove_empties kafka_keys
                   [''HOST'' \<mapsto> index_map (svc_URIParams s) ''host'',
                    ''PORT'' \<mapsto> index_map (svc_URIParams s) ''port'',
                    ''PASSWORD'' \<mapsto> (case svc_Users s of [] \<Rightarrow> [] | u # r \<Rightarrow> Password u),
                    ''USERNAME'' \<mapsto> (case svc_Users s of [] \<Rightarrow> [] | u # r \<Rightarrow> Username u),
                    ''ACCESS_CERT'' \<mapsto> KafkaAccessCert (svc_ConnectionInfo s),
                    ''ACCESS_KEY'' \<mapsto> KafkaAccessKey (svc_ConnectionInfo s),
                    ''CA_CERT'' \<mapsto> ca]\<rparr>,
         None),
      [Remote (CallCA (k_Project (k_Spec (Kafka a))))])"
  by (cases "svc_Users s")
     (simp_all add: kafkaAdapter_newSecret_def index_users_def getServiceCommonSpec_def Let_def)

lemma kafka_literal_keys:
  "[''HOST'' \<mapsto> v1, ''PORT'' \<mapsto> v2, ''PASSWORD'' \<mapsto> v3, ''USERNAME'' \<mapsto> v4,
    ''ACCESS_CERT'' \<mapsto> v5, ''ACCESS_KEY'' \<mapsto> v6, ''CA_CERT'' \<mapsto> v7] k = Some v
   \<Longrightarrow> k \<in> set kafka_keys"
  by (simp add: kafka_keys_def split: if_splits)

lemma newSecret_no_empty_value:
  assumes "fst (kafkaAdapter_newSecret a s) = Returns (Some sec, e)"
  shows "sec_StringData sec k \<noteq> Some []"
proof (cases "CA_Get (avn a) (k_Project (k_Spec (Kafka a)))")
  case (Pair ca r)
  show ?thesis
  proof (cases r)
    case None
    with Pair assms have "sec_StringData sec = remove_empties kafka_keys
                   [''HOST'' \<mapsto> index_map (svc_URIParams s) ''host'',
                    ''PORT'' \<mapsto> index_map (svc_URIParams s) ''port'',
                    ''PASSWORD'' \<mapsto> (case svc_Users s of [] \<Rightarrow> [] | u # r \<Rightarrow> Password u),
                    ''USERNAME'' \<mapsto> (case svc_Users s of [] \<Rightarrow> [] | u # r \<Rightarrow> Username u),
                    ''ACCESS_CERT'' \<mapsto> KafkaAccessCert (svc_ConnectionInfo s),
                    ''ACCESS_KEY'' \<mapsto> KafkaAccessKey (svc_ConnectionInfo s),
                    ''CA_CERT'' \<mapsto> ca]"
      using newSecret_CA_ok [of a ca s] by auto
    then show ?thesis
      using kafka_literal_keys [of _ _ _ _ _ _ _ k "[]"]
      by (simp only: remove_empties_eq split: if_splits) blast
  next
    case (Some e')
    with Pair assms show ?thesis
      using newSecret_CA_fails [of a ca e' s] by simp
  qed
qed

text \<open>
  C3. The claim: no field of a secret built by PG \<open>getSecret\<close> or Kafka \<open>newSecret\<close> maps
  to the empty string. Kafka's builder removes the empties (\<open>newSecret_no_empty_value\<close>);
  PG's builder has no such loop: for a service whose URI parameters are empty, the
  secret it returns maps \<open>PGHOST\<close> and \<open>PGPASSWORD\<close> to the empty string.
\<close>

theorem getSecret_keeps_empty_fields:
  "(case fst (PGHandler_getSecret (answering (Some bare_service, None) None ([], None))
               example_logger (PGObj example_pg)) of
      Returns (Some sec, e) \<Rightarrow> (e, sec_StringData sec ''PGHOST'', sec_StringData sec ''PGPASSWORD'')
    | _ \<Rightarrow> (None, None, None))
   = (None, Some [], Some [])"
  by (simp add: PGHandler_getSecret_def convert_def answering_def example_pg_def bare_service_def
        example_service_def index_map_def)

lemma getSecret_name:
  "fst (PGHandler_getSecret c log (PGObj p)) = Returns (Some sec, e) \<Longrightarrow>
   sec_Name sec = getSecretName p \<and> sec_Namespace sec = pg_Namespace p"
  by (cases "Services_Get c (pg_Project (pg_Spec p)) (pg_Name p)")
     (auto simp: PGHandler_getSecret_def convert_def Let_def split: option.splits)

text \<open>
  C5. The secret built for a descriptor is named by the descriptor's target-secret-name
  override when that is non-empty and by the descriptor's own name otherwise, and lies in
  the descriptor's namespace; for the PG handler and for the Kafka adapter.
\<close>

theorem secret_name_and_namespace:
  "(fst (PGHandler_getSecret c log (PGObj p)) = Returns (Some sec, e) \<longrightarrow>
      sec_Name sec = (if pg_ConnInfoSecretTarget_Name (pg_Spec p) \<noteq> []
                      then pg_ConnInfoSecretTarget_Name (pg_Spec p) else pg_Name p)
      \<and> sec_Namespace sec = pg_Namespace p)
   \<and> (fst (kafkaAdapter_newSecret a s) = Returns (Some ksec, ke) \<longrightarrow>
      sec_Name ksec = (if k_ConnInfoSecretTarget_Name (k_Spec (Kafka a)) \<noteq> []
                       then k_ConnInfoSecretTarget_Name (k_Spec (Kafka a)) else k_Name (Kafka a))
      \<and> sec_Namespace ksec = k_Namespace (Kafka a))"
proof (intro conjI impI)
  assume h: "fst (PGHandler_getSecret c log (PGObj p)) = Returns (Some sec, e)"
  from getSecret_name [OF h]
  show "sec_Name sec = (if pg_ConnInfoSecretTarget_Name (pg_Spec p) \<noteq> []
                      then pg_ConnInfoSecretTarget_Name (pg_Spec p) else pg_Name p)"
    by (simp add: getSecretName_def)
  from getSecret_name [OF h] show "sec_Namespace sec = pg_Namespace p" by simp
next
  assume h: "fst (kafkaAdapter_newSecret a s) = Returns (Some ksec, ke)"
  obtain ca r where ca: "CA_Get (avn a) (k_Project (k_Spec (Kafka a))) = (ca, r)"
    by (cases "CA_Get (avn a) (k_Project (k_Spec (Kafka a)))")
  have r: "r = None"
  proof (cases r)
    case (Some e')
    with ca h newSecret_CA_fails [of a ca e' s] show ?thesis by simp
  qed simp
  from h ca r newSecret_CA_ok [of a ca s]
  show "sec_Name ksec = (if k_ConnInfoSecretTarget_Name (k_Spec (Kafka a)) \<noteq> []
                       then k_ConnInfoSecretTarget_Name (k_Spec (Kafka a)) else k_Name (Kafka a))"
    by auto
  from h ca r newSecret_CA_ok [of a ca s]
  show "sec_Namespace ksec = k_Namespace (Kafka a)"
    by auto
qed

theorem secret_name_and_namespace_witness:
  "\<exists>sec ksec.
     fst (PGHandler_getSecret (answering (Some example_service, None) None (''ca'', None))
            example_logger (PGObj example_pg)) = Returns (Some sec, None)
     \<and> sec_Name sec = ''p1-db'' \<and> sec_Namespace sec = ''default''
     \<and> fst (kafkaAdapter_newSecret
              \<lparr>avn = answering (Some example_service, None) None (''ca'', None), Kafka = example_kafka\<rparr>
              example_service) = Returns (Some ksec, None)
     \<and> sec_Name ksec = ''k1-conn'' \<and> sec_Namespace ksec = ''default''"
proof -
  let ?c = "answering (Some example_service, None) None (''ca'', None)"
  let ?a = "\<lparr>avn = ?c, Kafka = example_kafka\<rparr>"
  obtain sec where h1:
    "fst (PGHandler_getSecret ?c example_logger (PGObj example_pg)) = Returns (Some sec, None)"
    by (simp add: PGHandler_getSecret_def convert_def answering_def Let_def)
  have ca: "CA_Get (avn ?a) (k_Project (k_Spec (Kafka ?a))) = (''ca'', None)"
    by (simp add: answering_def)
  obtain ksec where h2:
    "fst (kafkaAdapter_newSecret ?a example_service) = Returns (Some ksec, None)"
    using newSecret_CA_ok [OF ca, of example_service] by simp
  from h1 h2 secret_name_and_namespace [of ?c example_logger example_pg sec None ?a example_service ksec None]
  have "sec_Name sec = ''p1-db'' \<and> sec_Namespace sec = ''default''
        \<and> sec_Name ksec = ''k1-conn'' \<and> sec_Namespace ksec = ''default''"
    by (simp add: example_pg_def example_kafka_def)
  with h1 h2 show ?thesis by blast
qed

text \<open>
  C7. The Kafka secret carries the access certificate, the access key and the CA
  certificate (each present exactly when it is non-empty, the empties being removed); the
  CA certificate is the answer of the separate \<open>CA.Get\<close> call, which is issued once. If
  that call fails, \<open>newSecret\<close> returns the wrapped error and no secret.
\<close>

theorem kafka_secret_tls_material:
  "(CA_Get (avn a) (k_Project (k_Spec (Kafka a))) = (ca, None) \<longrightarrow>
      (\<exists>sec. kafkaAdapter_newSecret a s
                = (Returns (Some sec, None), [Remote (CallCA (k_Project (k_Spec (Kafka a))))])
         \<and> sec_StringData sec ''CA_CERT'' = (if ca = [] then None else Some ca)
         \<and> sec_StringData sec ''ACCESS_CERT''
             = (if KafkaAccessCert (svc_ConnectionInfo s) = [] then None
                else Some (KafkaAccessCert (svc_ConnectionInfo s)))
         \<and> sec_StringData sec ''ACCESS_KEY''
             = (if KafkaAccessKey (svc_ConnectionInfo s) = [] then None
                else Some (KafkaAccessKey (svc_ConnectionInfo s)))))
   \<and> (CA_Get (avn a) (k_Project (k_Spec (Kafka a))) = (ca, Some e) \<longrightarrow>
        kafkaAdapter_newSecret a s
          = (Returns (None, Some (Wrapped ''aiven client error '' e)),
             [Remote (CallCA (k_Project (k_Spec (Kafka a))))]))"
proof (intro conjI impI)
  assume ok: "CA_Get (avn a) (k_Project (k_Spec (Kafka a))) = (ca, None)"
  show "\<exists>sec. kafkaAdapter_newSecret a s
                = (Returns (Some sec, None), [Remote (CallCA (k_Project (k_Spec (Kafka a))))])
         \<and> sec_StringData sec ''CA_CERT'' = (if ca = [] then None else Some ca)
         \<and> sec_StringData sec ''ACCESS_CERT''
             = (if KafkaAccessCert (svc_ConnectionInfo s) = [] then None
                else Some (KafkaAccessCert (svc_ConnectionInfo s)))
         \<and> sec_StringData sec ''ACCESS_KEY''
             = (if KafkaAccessKey (svc_ConnectionInfo s) = [] then None
                else Some (KafkaAccessKey (svc_ConnectionInfo s)))"
    unfolding newSecret_CA_ok [OF ok]
    by (simp add: remove_empties_eq kafka_keys_def del: remove_empties.simps)
next
  assume "CA_Get (avn a) (k_Project (k_Spec (Kafka a))) = (ca, Some e)"
  then show "kafkaAdapter_newSecret a s
          = (Returns (None, Some (Wrapped ''aiven client error '' e)),
             [Remote (CallCA (k_Project (k_Spec (Kafka a))))])"
    by (rule newSecret_CA_fails)
qed

theorem kafka_secret_tls_material_witness:
  "CA_Get (answering (None, None) None (''ca-pem'', None)) ''p1'' = (''ca-pem'', None)
   \<and> (\<exists>sec. fst (kafkaAdapter_newSecret
                   \<lparr>avn = answering (None, None) None (''ca-pem'', None), Kafka = example_kafka\<rparr>
                   example_service) = Returns (Some sec, None)
         \<and> sec_StringData sec ''CA_CERT'' = Some ''ca-pem''
         \<and> sec_StringData sec ''ACCESS_CERT'' = Some ''cert''
         \<and> sec_StringData sec ''ACCESS_KEY'' = Some ''key'')
   \<and> CA_Get (answering (None, None) None ([], Some (RemoteError Transient ''503''))) ''p1''
       = ([], Some (RemoteError Transient ''503''))
   \<and> fst (kafkaAdapter_newSecret
            \<lparr>avn = answering (None, None) None ([], Some (RemoteError Transient ''503'')),
             Kafka = example_kafka\<rparr>
            example_service)
       = Returns (None, Some (Wrapped ''aiven client error '' (RemoteError Transient ''503'')))"
  using kafka_secret_tls_material
          [of "\<lparr>avn = answering (None, None) None (''ca-pem'', None), Kafka = example_kafka\<rparr>"
              "''ca-pem''" example_service]
        kafka_secret_tls_material
          [of "\<lparr>avn = answering (None, None) None ([], Some (RemoteError Transient ''503'')),
                Kafka = example_kafka\<rparr>"
              "[]" example_service "RemoteError Transient ''503''"]
  by (auto simp: answering_def example_kafka_def example_service_def)

text \<open>
  C9. For a service whose user list is empty, \<open>newSecret\<close> does not index the list (it
  does not panic), and when the CA call succeeds it returns a secret without the
  \<open>USERNAME\<close> and \<open>PASSWORD\<close> fields.
\<close>

theorem kafka_secret_without_users:
  "svc_Users s = [] \<Longrightarrow>
   fst (kafkaAdapter_newSecret a s) \<noteq> Panics
   \<and> (snd (CA_Get (avn a) (k_Project (k_Spec (Kafka a)))) = None \<longrightarrow>
        (\<exists>sec. fst (kafkaAdapter_newSecret a s) = Returns (Some sec, None)
           \<and> sec_StringData sec ''USERNAME'' = None
           \<and> sec_StringData sec ''PASSWORD'' = None))"
proof -
  assume u: "svc_Users s = []"
  obtain ca r where ca: "CA_Get (avn a) (k_Project (k_Spec (Kafka a))) = (ca, r)"
    by (cases "CA_Get (avn a) (k_Project (k_Spec (Kafka a)))")
  show ?thesis
  proof (cases r)
    case None
    with ca have ok: "CA_Get (avn a) (k_Project (k_Spec (Kafka a))) = (ca, None)" by simp
    show ?thesis
      unfolding newSecret_CA_ok [OF ok]
      by (simp add: remove_empties_eq kafka_keys_def u del: remove_empties.simps)
  next
    case (Some e)
    with ca have bad: "CA_Get (avn a) (k_Project (k_Spec (Kafka a))) = (ca, Some e)" by simp
    show ?thesis
      unfolding newSecret_CA_fails [OF bad]
      by (simp add: bad)
  qed
qed

theorem kafka_secret_without_users_witness:
  "svc_Users example_service = []
   \<and> snd (CA_Get (answering (None, None) None (''ca-pem'', None)) ''p1'') = None
   \<and> (\<exists>sec. fst (kafkaAdapter_newSecret
                   \<lparr>avn = answering (None, None) None (''ca-pem'', None), Kafka = example_kafka\<rparr>
                   example_service) = Returns (Some sec, None)
         \<and> sec_StringData sec ''USERNAME'' = None
         \<and> sec_StringData sec ''PASSWORD'' = None)"
proof -
  have u: "svc_Users example_service = []" by (simp add: example_service_def)
  show ?thesis
    using u kafka_secret_without_users
              [OF u, of "\<lparr>avn = answering (None, None) None (''ca-pem'', None), Kafka = example_kafka\<rparr>"]
    by (simp add: answering_def example_kafka_def)
qed

section \<open>Objects of another kind\<close>

text \<open>
  C8. Given an object that is not a PG descriptor, each of \<open>exists\<close>, \<open>create\<close>,
  \<open>update\<close>, \<open>delete\<close>, \<open>isActive\<close> and \<open>getSecret\<close> of the PG handler returns the
  conversion error and issues no remote call; given an object that is not a Kafka
  descriptor, \<open>newKafkaAdapter\<close> returns an error and issues no remote call.
\<close>

theorem wrong_kind_fails_without_remote_call:
  "(\<not> is_PG i \<longrightarrow>
      fst (PGHandler_exists c log i) = (False, Some (Errorf ''cannot convert object to PG''))
      \<and> remote_calls (snd (PGHandler_exists c log i)) = []
      \<and> fst (PGHandler_create h c log i) = Returns (None, Some (Errorf ''cannot convert object to PG''))
      \<and> remote_calls (snd (PGHandler_create h c log i)) = []
      \<and> fst (PGHandler_update h c log i) = Returns (None, Some (Errorf ''cannot convert object to PG''))
      \<and> remote_calls (snd (PGHandler_update h c log i)) = []
      \<and> fst (PGHandler_delete c log i) = (False, Some (Errorf ''cannot convert object to PG''))
      \<and> remote_calls (snd (PGHandler_delete c log i)) = []
      \<and> fst (PGHandler_isActive h c log i) = (False, Some (Errorf ''cannot convert object to PG''))
      \<and> remote_calls (snd (PGHandler_isActive h c log i)) = []
      \<and> fst (PGHandler_getSecret c log i) = Returns (None, Some (Errorf ''cannot convert object to PG''))
      \<and> remote_calls (snd (PGHandler_getSecret c log i)) = [])
   \<and> (\<not> is_Kafka j \<longrightarrow>
      fst (newKafkaAdapter c j) = (None, Some (Errorf ''object is not of type v1alpha1.Kafka''))
      \<and> remote_calls (snd (newKafkaAdapter c j)) = [])"
proof (intro conjI impI)
  assume "\<not> is_PG i"
  then have conv: "convert i = Inl (Errorf ''cannot convert object to PG'')"
    by (cases i) (simp_all add: convert_def)
  show "fst (PGHandler_exists c log i) = (False, Some (Errorf ''cannot convert object to PG''))"
    by (simp add: PGHandler_exists_def conv)
  show "remote_calls (snd (PGHandler_exists c log i)) = []"
    by (simp add: PGHandler_exists_def conv remote_calls_def)
  show "fst (PGHandler_create h c log i) = Returns (None, Some (Errorf ''cannot convert object to PG''))"
    by (simp add: PGHandler_create_def conv)
  show "remote_calls (snd (PGHandler_create h c log i)) = []"
    by (simp add: PGHandler_create_def conv remote_calls_def)
  show "fst (PGHandler_update h c log i) = Returns (None, Some (Errorf ''cannot convert object to PG''))"
    by (simp add: PGHandler_update_def conv)
  show "remote_calls (snd (PGHandler_update h c log i)) = []"
    by (simp add: PGHandler_update_def conv remote_calls_def)
  show "fst (PGHandler_delete c log i) = (False, Some (Errorf ''cannot convert object to PG''))"
    by (simp add: PGHandler_delete_def conv)
  show "remote_calls (snd (PGHandler_delete c log i)) = []"
    by (simp add: PGHandler_delete_def conv remote_calls_def)
  show "fst (PGHandler_isActive h c log i) = (False, Some (Errorf ''cannot convert object to PG''))"
    by (simp add: PGHandler_isActive_def conv)
  show "remote_calls (snd (PGHandler_isActive h c log i)) = []"
    by (simp add: PGHandler_isActive_def conv remote_calls_def)
  show "fst (PGHandler_getSecret c log i) = Returns (None, Some (Errorf ''cannot convert object to PG''))"
    by (simp add: PGHandler_getSecret_def conv)
  show "remote_calls (snd (PGHandler_getSecret c log i)) = []"
    by (simp add: PGHandler_getSecret_def conv remote_calls_def)
next
  assume k: "\<not> is_Kafka j"
  then show "fst (newKafkaAdapter c j) = (None, Some (Errorf ''object is not of type v1alpha1.Kafka''))"
    by (cases j) (simp_all add: newKafkaAdapter_def)
  from k show "remote_calls (snd (newKafkaAdapter c j)) = []"
    by (cases j) (simp_all add: newKafkaAdapter_def remote_calls_def)
qed

theorem wrong_kind_fails_without_remote_call_witness:
  "\<not> is_PG (KafkaObj example_kafka) \<and> \<not> is_Kafka (PGObj example_pg)
   \<and> fst (PGHandler_create example_helpers (answering (Some example_service, None) None ([], None))
            example_logger (KafkaObj example_kafka))
       = Returns (None, Some (Errorf ''cannot convert object to PG''))
   \<and> remote_calls (snd (PGHandler_create example_helpers
                          (answering (Some example_service, None) None ([], None))
                          example_logger (KafkaObj example_kafka))) = []
   \<and> fst (PGHandler_isActive example_helpers (answering (Some example_service, None) None ([], None))
            example_logger (KafkaObj example_kafka))
       = (False, Some (Errorf ''cannot convert object to PG''))
   \<and> fst (newKafkaAdapter (answering (Some example_service, None) None ([], None)) (PGObj example_pg))
       = (None, Some (Errorf ''object is not of type v1alpha1.Kafka''))"
  using wrong_kind_fails_without_remote_call
          [of "KafkaObj example_kafka" "answering (Some example_service, None) None ([], None)"
              example_logger example_helpers "PGObj example_pg"]
  by simp

end
